theory Spec2Isabelle
  imports Main
begin

section \<open>Python values and the runtime the module relies on\<close>

text \<open>
  The module \<^verbatim>\<open>inventory_system.py\<close> keeps one global dictionary, \<^verbatim>\<open>STOCK_DATA\<close>, and
  seven functions that read or write it. The embedding passes that dictionary explicitly:
  every function of the module takes the dictionary and returns its result together
  with the dictionary it leaves behind.

  The functions are dynamically typed, and several claims are about calls with the
  wrong types, so arguments and stored quantities are values of \<open>pyval\<close>: the types
  that \<^verbatim>\<open>json.load\<close> can produce. An exception is a value of \<open>exn\<close>; a function
  that returns nothing yields \<open>Returned\<close> or \<open>Raised e\<close> (the exception reaches the caller).
  \<open>CodePointAbove255\<close> is no exception of Python: the JSON reader below yields it on a
  text that names a character beyond the 256 that \<open>string\<close> has, to say that the text is
  outside the model.

  Three things the module uses are not part of it and are kept as parameters, so that
  every theorem holds whatever they do: IEEE arithmetic on \<^verbatim>\<open>float\<close> (the type \<open>'f\<close> and
  the four \<open>float_\<close> fields of \<open>runtime\<close>), the JSON codec (\<open>json_dumps\<close>, \<open>json_loads\<close>
  over file contents of type \<open>'d\<close>; \<open>json_loads\<close> stands for \<^verbatim>\<open>json.load(file)\<close>, decoding
  the file included, and may raise any exception; \<open>json_dumps\<close> stands for
  \<^verbatim>\<open>json.dump(obj, file, indent=4)\<close> and yields what it has written to the file when it
  ends, with the exception it ends with, if any), and the file system, which is modelled
  by the small type \<open>node\<close>. The codec of Python's \<^verbatim>\<open>json\<close> module itself is defined
  further down, for the claim that is about it. Logging, the audit list \<^verbatim>\<open>logs\<close> (its
  entries carry \<^verbatim>\<open>datetime.now()\<close>)
  and the demonstration in \<^verbatim>\<open>main\<close> after the inventory calls leave the dictionary alone
  and are not modelled.
\<close>

datatype exn =
    TypeError | KeyError | OverflowError | ValueError | RecursionError
  | JSONDecodeError | UnicodeDecodeError
  | FileNotFoundError | PermissionError | IsADirectoryError
  | CodePointAbove255

datatype outcome = Returned | Raised exn

datatype 'f number = NInt int | NFloat 'f

datatype 'f pyval =
    PNone
  | PBool bool
  | PInt int
  | PFloat 'f
  | PStr string
  | PList "'f pyval list"
  | PDict "(string \<times> 'f pyval) list"

record ('f, 'd) runtime =
  float_add :: "'f number \<Rightarrow> 'f number \<Rightarrow> exn + 'f"
  float_sub :: "'f number \<Rightarrow> 'f number \<Rightarrow> exn + 'f"
  float_lt :: "'f number \<Rightarrow> 'f number \<Rightarrow> bool"
  float_le :: "'f number \<Rightarrow> 'f number \<Rightarrow> bool"
  json_dumps :: "'f pyval \<Rightarrow> 'd \<times> exn option"
  json_loads :: "'d \<Rightarrow> exn + 'f pyval"

text \<open>
  \<open>as_number\<close> is the numeric reading of a value: \<^verbatim>\<open>bool\<close> is a subclass of \<^verbatim>\<open>int\<close>
  (\<^verbatim>\<open>True == 1\<close>), every other non-number has none.
\<close>

fun as_number :: "'f pyval \<Rightarrow> 'f number option" where
  "as_number (PInt n) = Some (NInt n)"
| "as_number (PBool b) = Some (NInt (if b then 1 else 0))"
| "as_number (PFloat x) = Some (NFloat x)"
| "as_number _ = None"

text \<open>\<^verbatim>\<open>isinstance(item, str)\<close> and \<^verbatim>\<open>isinstance(qty, (int, float))\<close>.\<close>

fun isinstance_str :: "'f pyval \<Rightarrow> bool" where
  "isinstance_str (PStr _) = True"
| "isinstance_str _ = False"

fun isinstance_int_float :: "'f pyval \<Rightarrow> bool" where
  "isinstance_int_float (PInt _) = True"
| "isinstance_int_float (PBool _) = True"
| "isinstance_int_float (PFloat _) = True"
| "isinstance_int_float _ = False"

text \<open>
  Arithmetic and comparison of two numbers. Python's integers are unbounded, so two
  integers are added, subtracted and compared exactly; as soon as one operand is a
  float the runtime decides (it may raise \<^verbatim>\<open>OverflowError\<close> when the integer does not
  fit a float).
\<close>

fun lift_float :: "exn + 'f \<Rightarrow> exn + 'f pyval" where
  "lift_float (Inl e) = Inl e"
| "lift_float (Inr x) = Inr (PFloat x)"

fun num_add :: "('f, 'd) runtime \<Rightarrow> 'f number \<Rightarrow> 'f number \<Rightarrow> exn + 'f pyval" where
  "num_add P (NInt a) (NInt b) = Inr (PInt (a + b))"
| "num_add P x y = lift_float (float_add P x y)"

fun num_sub :: "('f, 'd) runtime \<Rightarrow> 'f number \<Rightarrow> 'f number \<Rightarrow> exn + 'f pyval" where
  "num_sub P (NInt a) (NInt b) = Inr (PInt (a - b))"
| "num_sub P x y = lift_float (float_sub P x y)"

fun num_lt :: "('f, 'd) runtime \<Rightarrow> 'f number \<Rightarrow> 'f number \<Rightarrow> bool" where
  "num_lt P (NInt a) (NInt b) = (a < b)"
| "num_lt P x y = float_lt P x y"

fun num_le :: "('f, 'd) runtime \<Rightarrow> 'f number \<Rightarrow> 'f number \<Rightarrow> bool" where
  "num_le P (NInt a) (NInt b) = (a \<le> b)"
| "num_le P x y = float_le P x y"

text \<open>
  \<^verbatim>\<open>a + b\<close>: numbers are added, two strings or two lists are concatenated, every other
  pair of these types raises \<^verbatim>\<open>TypeError\<close>. \<^verbatim>\<open>a - b\<close> is defined for numbers only.
\<close>

definition py_add :: "('f, 'd) runtime \<Rightarrow> 'f pyval \<Rightarrow> 'f pyval \<Rightarrow> exn + 'f pyval" where
  "py_add P a b =
     (case (as_number a, as_number b) of
        (Some x, Some y) \<Rightarrow> num_add P x y
      | _ \<Rightarrow>
        (case (a, b) of
           (PStr u, PStr v) \<Rightarrow> Inr (PStr (u @ v))
         | (PList u, PList v) \<Rightarrow> Inr (PList (u @ v))
         | _ \<Rightarrow> Inl TypeError))"

definition py_sub :: "('f, 'd) runtime \<Rightarrow> 'f pyval \<Rightarrow> 'f pyval \<Rightarrow> exn + 'f pyval" where
  "py_sub P a b =
     (case (as_number a, as_number b) of
        (Some x, Some y) \<Rightarrow> num_sub P x y
      | _ \<Rightarrow> Inl TypeError)"

text \<open>
  \<^verbatim>\<open>v < n\<close> and \<^verbatim>\<open>v <= n\<close> against a number \<open>n\<close>: the module compares a stored quantity
  with the literal \<^verbatim>\<open>0\<close> and with the threshold. A string, list, dictionary or \<^verbatim>\<open>None\<close>
  on the left raises \<^verbatim>\<open>TypeError\<close>.
\<close>

definition py_lt :: "('f, 'd) runtime \<Rightarrow> 'f pyval \<Rightarrow> 'f number \<Rightarrow> exn + bool" where
  "py_lt P v n = (case as_number v of Some x \<Rightarrow> Inr (num_lt P x n) | None \<Rightarrow> Inl TypeError)"

definition py_le :: "('f, 'd) runtime \<Rightarrow> 'f pyval \<Rightarrow> 'f number \<Rightarrow> exn + bool" where
  "py_le P v n = (case as_number v of Some x \<Rightarrow> Inr (num_le P x n) | None \<Rightarrow> Inl TypeError)"

section \<open>The dictionary\<close>

text \<open>
  \<^verbatim>\<open>STOCK_DATA\<close> is a \<^verbatim>\<open>dict\<close>: it iterates in insertion order, assigning to a key that is
  present keeps its place, and a new key goes last. Its keys are strings: \<^verbatim>\<open>add_item\<close>
  stores under a key only after \<^verbatim>\<open>isinstance(item, str)\<close>, and the keys of a JSON object are
  strings. So the dictionary is a list of pairs, in iteration order.
\<close>

type_synonym 'f stock = "(string \<times> 'f pyval) list"

text \<open>
  Looking up an arbitrary value as a key hashes it first: a list or a dictionary is
  unhashable (\<^verbatim>\<open>TypeError\<close>); a string is looked up; any other hashable value equals no
  string and so is no key of the dictionary.
\<close>

fun hash_key :: "'f pyval \<Rightarrow> exn + string option" where
  "hash_key (PStr k) = Inr (Some k)"
| "hash_key (PList _) = Inl TypeError"
| "hash_key (PDict _) = Inl TypeError"
| "hash_key _ = Inr None"

primrec dict_set :: "'f stock \<Rightarrow> string \<Rightarrow> 'f pyval \<Rightarrow> 'f stock" where
  "dict_set [] k v = [(k, v)]"
| "dict_set (p # ps) k v = (if fst p = k then (k, v) # ps else p # dict_set ps k v)"

definition dict_get :: "'f stock \<Rightarrow> string \<Rightarrow> 'f pyval \<Rightarrow> 'f pyval" where
  "dict_get s k d = (case map_of s k of None \<Rightarrow> d | Some v \<Rightarrow> v)"

definition dict_del :: "'f stock \<Rightarrow> string \<Rightarrow> 'f stock" where
  "dict_del s k = filter (\<lambda>p. fst p \<noteq> k) s"

definition dict_update :: "'f stock \<Rightarrow> (string \<times> 'f pyval) list \<Rightarrow> 'f stock" where
  "dict_update s kvs = fold (\<lambda>p d. dict_set d (fst p) (snd p)) kvs s"

text \<open>\<^verbatim>\<open>item in STOCK_DATA\<close>, the test that \<^verbatim>\<open>remove_item\<close> starts with.\<close>

definition dict_contains :: "'f stock \<Rightarrow> 'f pyval \<Rightarrow> exn + bool" where
  "dict_contains s item =
     (case hash_key item of
        Inl e \<Rightarrow> Inl e
      | Inr None \<Rightarrow> Inr False
      | Inr (Some k) \<Rightarrow> Inr (map_of s k \<noteq> None))"

text \<open>A dictionary all of whose quantities are integers, such as \<^verbatim>\<open>{"apple": 3, "pear": 5}\<close>.\<close>

definition int_stock :: "(string \<times> int) list \<Rightarrow> 'f stock" where
  "int_stock m = map (\<lambda>p. (fst p, PInt (snd p))) m"

section \<open>The functions of the module\<close>

text \<open>
  \<^verbatim>\<open>add_item(item, qty)\<close>: the two type checks return early; otherwise
  \<^verbatim>\<open>STOCK_DATA[item] = STOCK_DATA.get(item, 0) + qty\<close>. The addition is outside any
  \<^verbatim>\<open>try\<close>, so an exception of \<^verbatim>\<open>+\<close> reaches the caller, before the assignment.
\<close>

definition add_item ::
  "('f, 'd) runtime \<Rightarrow> 'f pyval \<Rightarrow> 'f pyval \<Rightarrow> 'f stock \<Rightarrow> outcome \<times> 'f stock" where
  "add_item P item qty s =
     (case item of
        PStr k \<Rightarrow>
          if \<not> isinstance_int_float qty then (Returned, s)
          else (case py_add P (dict_get s k (PInt 0)) qty of
                  Inl e \<Rightarrow> (Raised e, s)
                | Inr v \<Rightarrow> (Returned, dict_set s k v))
      | _ \<Rightarrow> (Returned, s))"

text \<open>
  \<^verbatim>\<open>remove_item(item, qty)\<close>: the membership test is outside the \<^verbatim>\<open>try\<close>; inside it,
  \<^verbatim>\<open>STOCK_DATA[item] -= qty\<close> reads, subtracts and only then assigns, the result is
  compared with \<^verbatim>\<open>0\<close>, and the entry is deleted when it is \<^verbatim>\<open><= 0\<close>. The handler catches
  \<^verbatim>\<open>KeyError\<close> and \<^verbatim>\<open>TypeError\<close> and nothing else.
\<close>

definition except_remove :: "exn \<Rightarrow> 'f stock \<Rightarrow> outcome \<times> 'f stock" where
  "except_remove e s = (if e = KeyError \<or> e = TypeError then (Returned, s) else (Raised e, s))"

definition remove_item ::
  "('f, 'd) runtime \<Rightarrow> 'f pyval \<Rightarrow> 'f pyval \<Rightarrow> 'f stock \<Rightarrow> outcome \<times> 'f stock" where
  "remove_item P item qty s =
     (case hash_key item of
        Inl e \<Rightarrow> (Raised e, s)
      | Inr None \<Rightarrow> (Returned, s)
      | Inr (Some k) \<Rightarrow>
          (case map_of s k of
             None \<Rightarrow> (Returned, s)
           | Some v \<Rightarrow>
               (case py_sub P v qty of
                  Inl e \<Rightarrow> except_remove e s
                | Inr r \<Rightarrow>
                    (case py_le P r (NInt 0) of
                       Inl e \<Rightarrow> except_remove e (dict_set s k r)
                     | Inr True \<Rightarrow> (Returned, dict_del (dict_set s k r) k)
                     | Inr False \<Rightarrow> (Returned, dict_set s k r)))))"

text \<open>\<^verbatim>\<open>get_qty(item)\<close> is \<^verbatim>\<open>STOCK_DATA.get(item, 0)\<close>.\<close>

definition get_qty :: "'f pyval \<Rightarrow> 'f stock \<Rightarrow> (exn + 'f pyval) \<times> 'f stock" where
  "get_qty item s =
     (case hash_key item of
        Inl e \<Rightarrow> (Inl e, s)
      | Inr None \<Rightarrow> (Inr (PInt 0), s)
      | Inr (Some k) \<Rightarrow> (Inr (dict_get s k (PInt 0)), s))"

text \<open>
  \<^verbatim>\<open>check_low_items(threshold)\<close> is the comprehension
  \<^verbatim>\<open>[i for i, q in STOCK_DATA.items() if q < threshold]\<close>: it walks the dictionary in order,
  and the first comparison that raises ends it. The threshold is a number, as the
  docstring has it; its default is \<^verbatim>\<open>5\<close>.
\<close>

fun low_items :: "('f, 'd) runtime \<Rightarrow> 'f number \<Rightarrow> 'f stock \<Rightarrow> exn + string list" where
  "low_items P t [] = Inr []"
| "low_items P t ((i, q) # rest) =
     (case py_lt P q t of
        Inl e \<Rightarrow> Inl e
      | Inr b \<Rightarrow>
          (case low_items P t rest of
             Inl e \<Rightarrow> Inl e
           | Inr is \<Rightarrow> Inr (if b then i # is else is)))"

definition check_low_items ::
  "('f, 'd) runtime \<Rightarrow> 'f number \<Rightarrow> 'f stock \<Rightarrow> (exn + string list) \<times> 'f stock" where
  "check_low_items P threshold s = (low_items P threshold s, s)"

definition check_low_items_default ::
  "('f, 'd) runtime \<Rightarrow> 'f stock \<Rightarrow> (exn + string list) \<times> 'f stock" where
  "check_low_items_default P s = check_low_items P (NInt 5) s"

text \<open>
  \<^verbatim>\<open>print_data()\<close> logs one line per entry, in iteration order; the model returns the
  pairs it logs.
\<close>

definition print_data :: "'f stock \<Rightarrow> (string \<times> 'f pyval) list \<times> 'f stock" where
  "print_data s = (s, s)"

section \<open>Files\<close>

text \<open>
  What a path names: nothing (\<open>Absent c\<close>, where \<open>c\<close> says whether a file can be created
  there), a regular file with its content (\<open>Regular w d\<close>, where \<open>w\<close> says whether it may
  be written), or a directory. \<^verbatim>\<open>open(path, "r")\<close> raises \<^verbatim>\<open>FileNotFoundError\<close> on nothing
  and \<^verbatim>\<open>IsADirectoryError\<close> on a directory. \<^verbatim>\<open>open(path, "w")\<close> followed by a complete
  write replaces the content; it raises an \<^verbatim>\<open>OSError\<close> where the file cannot be created
  or written. A write that fails half way (a full disk) is not modelled.
\<close>

datatype 'd node = Absent bool | Regular bool 'd | Directory

type_synonym 'd files = "string \<Rightarrow> 'd node"

definition open_read :: "'d files \<Rightarrow> string \<Rightarrow> exn + 'd" where
  "open_read fs path =
     (case fs path of
        Absent c \<Rightarrow> Inl FileNotFoundError
      | Regular w d \<Rightarrow> Inr d
      | Directory \<Rightarrow> Inl IsADirectoryError)"

definition open_write :: "'d files \<Rightarrow> string \<Rightarrow> 'd \<Rightarrow> exn + 'd files" where
  "open_write fs path d =
     (case fs path of
        Absent c \<Rightarrow> if c then Inr (fs(path := Regular True d)) else Inl FileNotFoundError
      | Regular w old \<Rightarrow> if w then Inr (fs(path := Regular True d)) else Inl PermissionError
      | Directory \<Rightarrow> Inl IsADirectoryError)"


fun is_OSError :: "exn \<Rightarrow> bool" where
  "is_OSError FileNotFoundError = True"
| "is_OSError PermissionError = True"
| "is_OSError IsADirectoryError = True"
| "is_OSError _ = False"

text \<open>
  \<^verbatim>\<open>load_data(file_path)\<close>: open, \<^verbatim>\<open>json.load\<close>, and only if the result is a \<^verbatim>\<open>dict\<close>,
  \<^verbatim>\<open>STOCK_DATA.clear()\<close> and \<^verbatim>\<open>STOCK_DATA.update(data)\<close>. The handlers catch
  \<^verbatim>\<open>FileNotFoundError\<close> and \<^verbatim>\<open>json.JSONDecodeError\<close>; any other exception of the
  \<^verbatim>\<open>try\<close> block reaches the caller.
\<close>

definition except_load :: "exn \<Rightarrow> 'f stock \<Rightarrow> outcome \<times> 'f stock" where
  "except_load e s =
     (if e = FileNotFoundError \<or> e = JSONDecodeError then (Returned, s) else (Raised e, s))"

definition load_data ::
  "('f, 'd) runtime \<Rightarrow> string \<Rightarrow> 'd files \<Rightarrow> 'f stock \<Rightarrow> outcome \<times> 'f stock" where
  "load_data P file_path fs s =
     (case open_read fs file_path of
        Inl e \<Rightarrow> except_load e s
      | Inr text \<Rightarrow>
          (case json_loads P text of
             Inl e \<Rightarrow> except_load e s
           | Inr (PDict data) \<Rightarrow> (Returned, dict_update [] data)
           | Inr _ \<Rightarrow> (Returned, s)))"

text \<open>
  \<^verbatim>\<open>save_data(file_path)\<close>: open for writing and \<^verbatim>\<open>json.dump(STOCK_DATA, file, indent=4)\<close>;
  the handler catches every \<^verbatim>\<open>OSError\<close> and nothing else. When \<^verbatim>\<open>json.dump\<close> raises, the
  file, already open, keeps what was written before. The dictionary is only read.
\<close>

definition except_save :: "exn \<Rightarrow> 'd files \<Rightarrow> outcome \<times> 'd files" where
  "except_save e fs = (if is_OSError e then (Returned, fs) else (Raised e, fs))"

definition save_data ::
  "('f, 'd) runtime \<Rightarrow> string \<Rightarrow> 'f stock \<Rightarrow> 'd files \<Rightarrow> outcome \<times> 'd files" where
  "save_data P file_path s fs =
     (case json_dumps P (PDict s) of
        (written, raised) \<Rightarrow>
          (case open_write fs file_path written of
             Inl e \<Rightarrow> except_save e fs
           | Inr fs' \<Rightarrow>
               (case raised of
                  None \<Rightarrow> (Returned, fs')
                | Some e \<Rightarrow> except_save e fs')))"

section \<open>Sequences of calls\<close>

text \<open>
  A caller runs the functions one after another on the same dictionary and the same
  files. An exception that reaches the caller ends that call only: the dictionary stays
  as the call left it, and the next call finds it so.
\<close>

datatype 'f op =
    Add "'f pyval" "'f pyval"
  | Remove "'f pyval" "'f pyval"
  | Load string
  | Save string

fun step :: "('f, 'd) runtime \<Rightarrow> 'f op \<Rightarrow> 'f stock \<times> 'd files \<Rightarrow> 'f stock \<times> 'd files" where
  "step P (Add item qty) (s, fs) = (snd (add_item P item qty s), fs)"
| "step P (Remove item qty) (s, fs) = (snd (remove_item P item qty s), fs)"
| "step P (Load path) (s, fs) = (snd (load_data P path fs s), fs)"
| "step P (Save path) (s, fs) = (s, snd (save_data P path s fs))"

definition run :: "('f, 'd) runtime \<Rightarrow> 'f op list \<Rightarrow> 'f stock \<times> 'd files \<Rightarrow> 'f stock \<times> 'd files" where
  "run P ops st = fold (step P) ops st"

text \<open>
  A quantity is zero or negative when the module's own test, \<^verbatim>\<open>STOCK_DATA[item] <= 0\<close>, is
  true of it.
\<close>

definition nonpositive :: "('f, 'd) runtime \<Rightarrow> 'f pyval \<Rightarrow> bool" where
  "nonpositive P v = (py_le P v (NInt 0) = Inr True)"

definition no_nonpositive :: "('f, 'd) runtime \<Rightarrow> 'f stock \<Rightarrow> bool" where
  "no_nonpositive P s = list_all (\<lambda>p. \<not> nonpositive P (snd p)) s"

text \<open>
  Of the four calls that are given the dictionary, two can store a quantity without
  looking at its sign: \<^verbatim>\<open>add_item\<close> stores the total it computes, and \<^verbatim>\<open>load_data\<close> the
  object it parses. \<open>add_total\<close> is the total that \<^verbatim>\<open>add_item\<close> stores (none when it returns
  early or \<^verbatim>\<open>+\<close> raises), \<open>loaded_object\<close> the dictionary that \<^verbatim>\<open>load_data\<close> installs (none
  on its other paths). A call keeps to the floor when what it stores, if anything, has no
  quantity at or below zero; \<^verbatim>\<open>remove_item\<close> and \<^verbatim>\<open>save_data\<close> always do. A sequence of
  calls keeps to the floor (\<open>floor_safe_run\<close>) when each call does in the state it is made
  in. The floor is kept along a sequence of calls (\<open>floor_kept\<close>) when no quantity is at or
  below zero before the first call nor after any of the calls.
\<close>

definition add_total :: "('f, 'd) runtime \<Rightarrow> 'f pyval \<Rightarrow> 'f pyval \<Rightarrow> 'f stock \<Rightarrow> 'f pyval option" where
  "add_total P item qty s =
     (case item of
        PStr k \<Rightarrow>
          if isinstance_int_float qty
          then (case py_add P (dict_get s k (PInt 0)) qty of Inl e \<Rightarrow> None | Inr v \<Rightarrow> Some v)
          else None
      | _ \<Rightarrow> None)"

definition loaded_object :: "('f, 'd) runtime \<Rightarrow> string \<Rightarrow> 'd files \<Rightarrow> 'f stock option" where
  "loaded_object P path fs =
     (case open_read fs path of
        Inl e \<Rightarrow> None
      | Inr text \<Rightarrow>
          (case json_loads P text of Inr (PDict data) \<Rightarrow> Some (dict_update [] data) | _ \<Rightarrow> None))"

fun floor_safe :: "('f, 'd) runtime \<Rightarrow> 'f op \<Rightarrow> 'f stock \<times> 'd files \<Rightarrow> bool" where
  "floor_safe P (Add item qty) (s, fs) =
     (case add_total P item qty s of None \<Rightarrow> True | Some v \<Rightarrow> \<not> nonpositive P v)"
| "floor_safe P (Remove item qty) (s, fs) = True"
| "floor_safe P (Load path) (s, fs) =
     (case loaded_object P path fs of None \<Rightarrow> True | Some data \<Rightarrow> no_nonpositive P data)"
| "floor_safe P (Save path) (s, fs) = True"

fun floor_safe_run :: "('f, 'd) runtime \<Rightarrow> 'f op list \<Rightarrow> 'f stock \<times> 'd files \<Rightarrow> bool" where
  "floor_safe_run P [] st = True"
| "floor_safe_run P (op # ops) st = (floor_safe P op st \<and> floor_safe_run P ops (step P op st))"

fun floor_kept :: "('f, 'd) runtime \<Rightarrow> 'f op list \<Rightarrow> 'f stock \<times> 'd files \<Rightarrow> bool" where
  "floor_kept P [] st = no_nonpositive P (fst st)"
| "floor_kept P (op # ops) st = (no_nonpositive P (fst st) \<and> floor_kept P ops (step P op st))"

text \<open>
  A sequence of calls to evaluate: the inventory calls of \<^verbatim>\<open>main\<close>, without its
  \<^verbatim>\<open>add_item("banana", -2)\<close>, and some more.
\<close>

definition demo_calls :: "unit op list" where
  "demo_calls =
     [Add (PStr ''apple'') (PInt 10), Add (PStr ''apple'') (PInt (- 2)),
      Add (PInt 123) (PStr ''ten''), Remove (PStr ''apple'') (PInt 3),
      Add (PStr ''pear'') (PBool True), Save ''inventory.json'',
      Remove (PStr ''pear'') (PFloat ()), Remove (PStr ''orange'') (PInt 1),
      Load ''inventory.json'']"



section \<open>A runtime to evaluate with\<close>

text \<open>
  To run the functions on concrete inputs the parameters need values. In
  \<open>nan_runtime\<close> the only float is NaN: arithmetic with it yields it and every
  comparison with it is false, as IEEE 754 has it. A file content is \<open>Some v\<close>, the JSON
  text of the value \<open>v\<close>, or \<open>None\<close>, text that is not JSON.
\<close>

definition nan_runtime :: "(unit, unit pyval option) runtime" where
  "nan_runtime =
     \<lparr> float_add = (\<lambda>x y. Inr ()),
       float_sub = (\<lambda>x y. Inr ()),
       float_lt = (\<lambda>x y. False),
       float_le = (\<lambda>x y. False),
       json_dumps = (\<lambda>v. (Some v, None)),
       json_loads = (\<lambda>d. case d of None \<Rightarrow> Inl JSONDecodeError | Some v \<Rightarrow> Inr v) \<rparr>"

definition no_files :: "(unit pyval option) files" where
  "no_files = (\<lambda>path. Absent True)"

section \<open>Python's JSON codec\<close>

text \<open>
  The text that \<^verbatim>\<open>json.dump(obj, file, indent=4)\<close> writes and the value that
  \<^verbatim>\<open>json.load(file)\<close> reads, as the \<^verbatim>\<open>json\<close> module of CPython defines them with the
  arguments the module passes (\<^verbatim>\<open>ensure_ascii\<close>, \<^verbatim>\<open>allow_nan\<close> and strict parsing at their
  defaults). A text is a \<open>string\<close>, its characters the code points below 256. Three
  things of the interpreter are parameters:
  \<^item> \<open>L\<close>, the limit on the number of digits of an integer that is converted to or from
    text (\<^verbatim>\<open>sys.set_int_max_str_digits\<close>; 4300 unless set otherwise, 0 for no limit);
  \<^item> \<open>fstr\<close>, the text of a float (\<^verbatim>\<open>float.__repr__\<close>, and \<^verbatim>\<open>NaN\<close>, \<^verbatim>\<open>Infinity\<close>,
    \<^verbatim>\<open>-Infinity\<close>);
  \<^item> \<open>fparse\<close>, the float that a text denotes (\<^verbatim>\<open>float\<close>).
  The interpreter's recursion limit, which makes \<^verbatim>\<open>json.load\<close> raise on a text nested
  some thousand levels deep, is not modelled.
\<close>

subsection \<open>Integers as text\<close>



definition digit_char :: "nat \<Rightarrow> char" where
  "digit_char n = char_of (48 + n)"

function digits_of :: "nat \<Rightarrow> string" where
  "digits_of n = (if n < 10 then [digit_char n] else digits_of (n div 10) @ [digit_char (n mod 10)])"
  by pat_completeness auto
termination
  by (relation "measure id") auto

definition int_repr :: "int \<Rightarrow> string" where
  "int_repr n = (if n < 0 then CHR ''-'' # digits_of (nat (- n)) else digits_of (nat n))"

text \<open>An integer of more than \<open>L\<close> digits is beyond the limit, when there is one.\<close>

definition exceeds_digits :: "nat \<Rightarrow> nat \<Rightarrow> bool" where
  "exceeds_digits L d = (0 < L \<and> L < d)"




subsection \<open>Writing\<close>

text \<open>
  A string is written between double quotes, with \<^verbatim>\<open>"\<close>, \<^verbatim>\<open>\\<close> and the control
  characters escaped, and every character outside the printable ASCII range as
  \<^verbatim>\<open>\u00XX\<close>.
\<close>

definition hex_char :: "nat \<Rightarrow> char" where
  "hex_char n = (if n < 10 then char_of (48 + n) else char_of (87 + n))"

definition escape_char :: "char \<Rightarrow> string" where
  "escape_char c =
     (if c = CHR 0x22 then [CHR 0x5C, CHR 0x22]
      else if c = CHR 0x5C then [CHR 0x5C, CHR 0x5C]
      else if c = CHR 0x0A then [CHR 0x5C, CHR ''n'']
      else if c = CHR 0x0D then [CHR 0x5C, CHR ''r'']
      else if c = CHR 0x09 then [CHR 0x5C, CHR ''t'']
      else if c = CHR 0x08 then [CHR 0x5C, CHR ''b'']
      else if c = CHR 0x0C then [CHR 0x5C, CHR ''f'']
      else if (of_char c :: nat) < 32 \<or> 126 < (of_char c :: nat)
        then [CHR 0x5C, CHR ''u'', CHR ''0'', CHR ''0'',
              hex_char (of_char c div 16), hex_char (of_char c mod 16)]
      else [c])"

definition encode_str :: "string \<Rightarrow> string" where
  "encode_str s = CHR 0x22 # concat (map escape_char s) @ [CHR 0x22]"

text \<open>
  \<^verbatim>\<open>json.dump\<close> writes the document piece by piece. \<open>written\<close> is what has reached the
  file and the exception that ended the writing, if one did; \<open>then_write\<close> writes a
  second piece after a first unless the first ended with an exception. With
  \<^verbatim>\<open>indent=4\<close> every element of a list and every pair of a dictionary is on a line of its
  own, indented by four spaces for each level; an empty list or dictionary is \<^verbatim>\<open>[]\<close> or
  \<^verbatim>\<open>{}\<close>. An integer beyond the digit limit raises \<^verbatim>\<open>ValueError\<close> when it is converted.
\<close>

definition newline_indent :: "nat \<Rightarrow> string" where
  "newline_indent lvl = CHR 0x0A # replicate (4 * lvl) (CHR '' '')"

type_synonym written = "string \<times> exn option"

definition then_write :: "written \<Rightarrow> written \<Rightarrow> written" where
  "then_write a b = (case snd a of Some e \<Rightarrow> a | None \<Rightarrow> (fst a @ fst b, snd b))"

fun iterencode :: "nat \<Rightarrow> ('f \<Rightarrow> string) \<Rightarrow> nat \<Rightarrow> 'f pyval \<Rightarrow> written"
  and iterencode_list :: "nat \<Rightarrow> ('f \<Rightarrow> string) \<Rightarrow> nat \<Rightarrow> 'f pyval list \<Rightarrow> written"
  and iterencode_dict :: "nat \<Rightarrow> ('f \<Rightarrow> string) \<Rightarrow> nat \<Rightarrow> (string \<times> 'f pyval) list \<Rightarrow> written"
where
  "iterencode L fstr lvl PNone = (''null'', None)"
| "iterencode L fstr lvl (PBool b) = (if b then ''true'' else ''false'', None)"
| "iterencode L fstr lvl (PInt n) =
     (if exceeds_digits L (length (digits_of (nat \<bar>n\<bar>))) then ([], Some ValueError)
      else (int_repr n, None))"
| "iterencode L fstr lvl (PFloat x) = (fstr x, None)"
| "iterencode L fstr lvl (PStr s) = (encode_str s, None)"
| "iterencode L fstr lvl (PList xs) =
     (if xs = [] then (''[]'', None)
      else then_write (CHR ''['' # newline_indent (Suc lvl), None)
             (then_write (iterencode_list L fstr (Suc lvl) xs)
                (newline_indent lvl @ '']'', None)))"
| "iterencode L fstr lvl (PDict kvs) =
     (if kvs = [] then (''{}'', None)
      else then_write (CHR ''{'' # newline_indent (Suc lvl), None)
             (then_write (iterencode_dict L fstr (Suc lvl) kvs)
                (newline_indent lvl @ ''}'', None)))"
| "iterencode_list L fstr lvl [] = ([], None)"
| "iterencode_list L fstr lvl (x # xs) =
     then_write (iterencode L fstr lvl x)
       (if xs = [] then ([], None)
        else then_write (CHR '','' # newline_indent lvl, None) (iterencode_list L fstr lvl xs))"
| "iterencode_dict L fstr lvl [] = ([], None)"
| "iterencode_dict L fstr lvl (kv # kvs) =
     then_write (encode_str (fst kv) @ '': '', None)
       (then_write (iterencode L fstr lvl (snd kv))
          (if kvs = [] then ([], None)
           else then_write (CHR '','' # newline_indent lvl, None) (iterencode_dict L fstr lvl kvs)))"


subsection \<open>Reading\<close>














subsection \<open>Numbers that are written and read back\<close>










declare digits_of.simps [simp del]


section \<open>Facts about the dictionary\<close>

lemma map_of_dict_set: "map_of (dict_set s k v) = (map_of s)(k \<mapsto> v)"
  by (induction s) (auto simp: fun_eq_iff)

lemma dict_set_absent: "k \<notin> fst ` set s \<Longrightarrow> dict_set s k v = s @ [(k, v)]"
  by (induction s) auto

lemma map_of_dict_del: "map_of (dict_del s k) = (map_of s)(k := None)"
  by (induction s) (auto simp: dict_del_def fun_eq_iff)

lemma keys_dict_del: "k \<notin> fst ` set (dict_del s k)"
  by (auto simp: dict_del_def)

lemma dict_del_dict_set: "dict_del (dict_set s k v) k = dict_del s k"
  by (induction s) (auto simp: dict_del_def)

text \<open>
  \<^verbatim>\<open>update\<close> with a dictionary (its keys differ from one another) that shares no key
  with the target appends its entries in order.
\<close>

lemma dict_update_distinct:
  "distinct (map fst (s @ kvs)) \<Longrightarrow> dict_update s kvs = s @ kvs"
proof (induction kvs arbitrary: s)
  case Nil
  then show ?case by (simp add: dict_update_def)
next
  case (Cons p kvs)
  from Cons.prems have absent: "fst p \<notin> fst ` set s" by auto
  from Cons.prems have "distinct (map fst ((s @ [p]) @ kvs))" by auto
  then have "dict_update (s @ [p]) kvs = (s @ [p]) @ kvs" by (rule Cons.IH)
  with absent show ?case by (simp add: dict_update_def dict_set_absent)
qed

section \<open>Facts about arithmetic\<close>

lemma py_sub_result: "py_sub P v q = Inr r \<Longrightarrow> as_number r \<noteq> None"
  apply (auto simp: py_sub_def split: option.splits)
  subgoal for x y by (cases "(P, x, y)" rule: num_sub.cases) (auto elim: lift_float.elims)
  done

lemma py_sub_non_number: "\<not> isinstance_int_float qty \<Longrightarrow> py_sub P v qty = Inl TypeError"
  by (cases qty) (auto simp: py_sub_def split: option.splits)

section \<open>add\_item with arguments of the wrong type\<close>

text \<open>
  Claim C7. When \<open>item\<close> is not a string, or \<open>qty\<close> is neither an \<^verbatim>\<open>int\<close> nor a
  \<^verbatim>\<open>float\<close>, \<^verbatim>\<open>add_item(item, qty)\<close> returns to its caller without raising and leaves the
  dictionary as it was. Either wrong type is enough, so the call \<^verbatim>\<open>add_item(123, "ten")\<close> of
  the claim, where both are wrong, is covered.
\<close>

theorem add_item_invalid_types_noop:
  "\<not> isinstance_str item \<or> \<not> isinstance_int_float qty \<Longrightarrow>
   add_item P item qty s = (Returned, s)"
  by (cases item) (auto simp: add_item_def)

theorem add_item_invalid_types_noop_witness:
  "\<not> isinstance_str (PInt 123 :: unit pyval) \<and>
   \<not> isinstance_int_float (PStr ''ten'' :: unit pyval) \<and>
   add_item nan_runtime (PInt 123) (PStr ''ten'') [(''apple'', PInt 10)]
     = (Returned, [(''apple'', PInt 10)]) \<and>
   add_item nan_runtime (PStr ''apple'') (PStr ''ten'') [(''apple'', PInt 10)]
     = (Returned, [(''apple'', PInt 10)]) \<and>
   add_item nan_runtime (PInt 123) (PInt 10) [(''apple'', PInt 10)]
     = (Returned, [(''apple'', PInt 10)])"
  using
    add_item_invalid_types_noop [of "PInt 123" "PStr ''ten''" nan_runtime "[(''apple'', PInt 10)]"]
    add_item_invalid_types_noop [of "PStr ''apple''" "PStr ''ten''" nan_runtime "[(''apple'', PInt 10)]"]
    add_item_invalid_types_noop [of "PInt 123" "PInt 10" nan_runtime "[(''apple'', PInt 10)]"]
  by simp

section \<open>remove\_item\<close>

text \<open>
  Claim C8. When \<open>item\<close> is not in the dictionary (\<^verbatim>\<open>item in STOCK_DATA\<close> is false),
  \<^verbatim>\<open>remove_item(item, qty)\<close> returns without raising and leaves the dictionary as it
  was, whatever \<open>qty\<close> is: \<open>qty\<close> is not looked at on this path.
\<close>

theorem remove_item_absent_noop:
  "dict_contains s item = Inr False \<Longrightarrow> remove_item P item qty s = (Returned, s)"
  by (auto simp: dict_contains_def remove_item_def split: sum.splits option.splits)

theorem remove_item_absent_noop_witness:
  "dict_contains [(''apple'', PInt 7 :: unit pyval)] (PStr ''orange'') = Inr False \<and>
   remove_item nan_runtime (PStr ''orange'') (PInt 1) [(''apple'', PInt 7)]
     = (Returned, [(''apple'', PInt 7)]) \<and>
   remove_item nan_runtime (PStr ''orange'') (PStr ''one'') [(''apple'', PInt 7)]
     = (Returned, [(''apple'', PInt 7)])"
proof -
  have h: "dict_contains [(''apple'', PInt 7 :: unit pyval)] (PStr ''orange'') = Inr False"
    by (simp add: dict_contains_def)
  show ?thesis
    using h remove_item_absent_noop [OF h, of nan_runtime "PInt 1"]
      remove_item_absent_noop [OF h, of nan_runtime "PStr ''one''"]
    by simp
qed

text \<open>
  Claim C9. When \<open>item\<close> is in the dictionary and the subtraction
  \<^verbatim>\<open>STOCK_DATA[item] - qty\<close> raises \<^verbatim>\<open>TypeError\<close>, \<^verbatim>\<open>remove_item\<close> returns with the
  dictionary exactly as it was: the subtraction comes before the assignment, and the
  handler catches the error. A \<open>qty\<close> that is not a number is such a case, whatever is
  stored under \<open>item\<close>.
\<close>

theorem remove_item_type_error_unchanged:
  "(hash_key item = Inr (Some k) \<and> map_of s k = Some v \<and> py_sub P v qty = Inl TypeError
      \<longrightarrow> remove_item P item qty s = (Returned, s)) \<and>
   (dict_contains s item = Inr True \<and> \<not> isinstance_int_float qty
      \<longrightarrow> remove_item P item qty s = (Returned, s))"
  by (auto simp: dict_contains_def remove_item_def except_remove_def py_sub_non_number
      split: sum.splits option.splits)

theorem remove_item_type_error_unchanged_witness:
  "hash_key (PStr ''apple'' :: unit pyval) = Inr (Some ''apple'') \<and>
   map_of [(''apple'', PInt 7 :: unit pyval)] ''apple'' = Some (PInt 7) \<and>
   py_sub nan_runtime (PInt 7) (PStr ''three'') = Inl TypeError \<and>
   dict_contains [(''apple'', PInt 7 :: unit pyval)] (PStr ''apple'') = Inr True \<and>
   \<not> isinstance_int_float (PStr ''three'' :: unit pyval) \<and>
   remove_item nan_runtime (PStr ''apple'') (PStr ''three'') [(''apple'', PInt 7)]
     = (Returned, [(''apple'', PInt 7)])"
  using remove_item_type_error_unchanged
    [of "PStr ''apple''" "''apple''" "[(''apple'', PInt 7)]" "PInt 7" nan_runtime "PStr ''three''"]
  by (simp add: py_sub_def dict_contains_def)

text \<open>
  Claim C3. When \<open>item\<close> is in the dictionary with quantity \<open>v\<close>, the subtraction
  \<open>v - qty\<close> yields \<open>r\<close> and \<open>r <= 0\<close>, \<^verbatim>\<open>remove_item\<close> deletes the entry and touches no
  other: afterwards \<^verbatim>\<open>get_qty(item)\<close> returns \<^verbatim>\<open>0\<close>, \<^verbatim>\<open>print_data\<close> does not report the
  item, and the item is not in the dictionary. (The subtraction yields a result only for
  a numeric \<open>v\<close> and a numeric \<open>qty\<close>.)
\<close>

theorem remove_item_floor:
  assumes "map_of s k = Some v" and "py_sub P v qty = Inr r" and "py_le P r (NInt 0) = Inr True"
  shows "remove_item P (PStr k) qty s = (Returned, dict_del s k)
       \<and> fst (get_qty (PStr k) (dict_del s k)) = Inr (PInt 0)
       \<and> k \<notin> fst ` set (fst (print_data (dict_del s k)))
       \<and> dict_contains (dict_del s k) (PStr k) = Inr False"
  using assms
  by (simp add: remove_item_def get_qty_def dict_get_def print_data_def dict_contains_def
      dict_del_dict_set map_of_dict_del keys_dict_del)

theorem remove_item_floor_witness:
  "map_of [(''apple'', PInt 8 :: unit pyval), (''pear'', PInt 1)] ''apple'' = Some (PInt 8) \<and>
   py_sub nan_runtime (PInt 8) (PInt 20) = Inr (PInt (- 12)) \<and>
   py_le nan_runtime (PInt (- 12)) (NInt 0) = Inr True \<and>
   remove_item nan_runtime (PStr ''apple'') (PInt 20) [(''apple'', PInt 8), (''pear'', PInt 1)]
     = (Returned, [(''pear'', PInt 1)]) \<and>
   fst (get_qty (PStr ''apple'') [(''pear'', PInt 1 :: unit pyval)]) = Inr (PInt 0)"
proof -
  have a: "map_of [(''apple'', PInt 8 :: unit pyval), (''pear'', PInt 1)] ''apple'' = Some (PInt 8)"
    by simp
  have b: "py_sub nan_runtime (PInt 8) (PInt 20) = Inr (PInt (- 12))"
    by (simp add: py_sub_def)
  have c: "py_le nan_runtime (PInt (- 12)) (NInt 0) = Inr True"
    by (simp add: py_le_def)
  show ?thesis
    using a b c remove_item_floor [OF a b c] by (simp add: dict_del_def)
qed

section \<open>add\_item on valid arguments\<close>







section \<open>check\_low\_items\<close>

lemma low_items_numbers:
  "list_all (\<lambda>p. isinstance_int_float (snd p)) s \<Longrightarrow>
   low_items P t s = Inr (map fst (filter (\<lambda>p. py_lt P (snd p) t = Inr True) s))"
proof (induction s)
  case Nil
  then show ?case by simp
next
  case (Cons p s)
  obtain i q where p: "p = (i, q)" by (cases p)
  from Cons.prems p have "isinstance_int_float q" by simp
  then obtain x where "as_number q = Some x" by (cases q) auto
  with Cons p show ?case by (simp add: py_lt_def)
qed

lemma low_items_non_number:
  "(i, q) \<in> set s \<Longrightarrow> \<not> isinstance_int_float q \<Longrightarrow> low_items P t s = Inl TypeError"
proof (induction s)
  case Nil
  then show ?case by simp
next
  case (Cons p s)
  obtain j r where p: "p = (j, r)" by (cases p)
  show ?case
  proof (cases "as_number r")
    case None
    with p show ?thesis by (simp add: py_lt_def)
  next
    case (Some x)
    then have "isinstance_int_float r" by (cases r) auto
    with Cons p have "low_items P t s = Inl TypeError" by auto
    with p Some show ?thesis by (simp add: py_lt_def)
  qed
qed

lemma low_items_int_stock:
  "low_items P (NInt t) (int_stock m) = Inr (map fst (filter (\<lambda>p. snd p < t) m))"
  by (induction m) (auto simp: int_stock_def py_lt_def)

text \<open>
  Claim C6. On a dictionary whose quantities are numbers, \<^verbatim>\<open>check_low_items(threshold)\<close>
  returns the items whose quantity passes the test \<^verbatim>\<open>q < threshold\<close>, in the order of the
  dictionary, and leaves the dictionary as it was; for integer quantities and an integer
  threshold the test is \<open><\<close> on the integers. The default threshold is \<^verbatim>\<open>5\<close>, and on
  \<^verbatim>\<open>{"apple": 3, "banana": 10, "pear": 5}\<close> the result is \<^verbatim>\<open>["apple"]\<close>.
\<close>

theorem check_low_items_spec:
  "(list_all (\<lambda>p. isinstance_int_float (snd p)) s \<longrightarrow>
      check_low_items P t s = (Inr (map fst (filter (\<lambda>p. py_lt P (snd p) t = Inr True) s)), s)) \<and>
   check_low_items P (NInt n) (int_stock m) = (Inr (map fst (filter (\<lambda>p. snd p < n) m)), int_stock m) \<and>
   check_low_items_default P s = check_low_items P (NInt 5) s \<and>
   check_low_items_default P [(''apple'', PInt 3), (''banana'', PInt 10), (''pear'', PInt 5)]
     = (Inr [''apple''], [(''apple'', PInt 3), (''banana'', PInt 10), (''pear'', PInt 5)])"
  by (simp add: check_low_items_def check_low_items_default_def low_items_numbers
      low_items_int_stock py_lt_def)

theorem check_low_items_spec_witness:
  "list_all (\<lambda>p. isinstance_int_float (snd p)) [(''apple'', PInt 3 :: unit pyval), (''banana'', PInt 10), (''pear'', PInt 5)] \<and>
   check_low_items nan_runtime (NInt 5) [(''apple'', PInt 3), (''banana'', PInt 10), (''pear'', PInt 5)]
     = (Inr [''apple''], [(''apple'', PInt 3), (''banana'', PInt 10), (''pear'', PInt 5)]) \<and>
   check_low_items nan_runtime (NInt 6) [(''apple'', PInt 3), (''banana'', PInt 10), (''pear'', PInt 5)]
     = (Inr [''apple'', ''pear''], [(''apple'', PInt 3), (''banana'', PInt 10), (''pear'', PInt 5)])"
  using check_low_items_spec [of "[(''apple'', PInt 3), (''banana'', PInt 10), (''pear'', PInt 5)]" nan_runtime "NInt 5"]
    check_low_items_spec [of "[(''apple'', PInt 3), (''banana'', PInt 10), (''pear'', PInt 5)]" nan_runtime "NInt 6"]
  by (simp add: py_lt_def)

section \<open>load\_data and save\_data\<close>

text \<open>
  Claim C4. \<^verbatim>\<open>load_data\<close> leaves the dictionary as it was when the file cannot be opened,
  when \<^verbatim>\<open>json.load\<close> raises, and when the parsed value is not a \<^verbatim>\<open>dict\<close>. It replaces
  the dictionary only when the file was read and parsed to a \<^verbatim>\<open>dict\<close>, and then by that
  \<^verbatim>\<open>dict\<close> alone: a dictionary that differs after the call comes from a successful parse
  of a JSON object.
\<close>

theorem load_data_failure_unchanged:
  "(open_read fs path = Inl e \<longrightarrow> snd (load_data P path fs s) = s) \<and>
   (open_read fs path = Inr text \<and> json_loads P text = Inl e \<longrightarrow> snd (load_data P path fs s) = s) \<and>
   (open_read fs path = Inr text \<and> json_loads P text = Inr v \<and> (\<forall>data. v \<noteq> PDict data)
      \<longrightarrow> load_data P path fs s = (Returned, s)) \<and>
   (open_read fs path = Inr text \<and> json_loads P text = Inr (PDict data)
      \<longrightarrow> load_data P path fs s = (Returned, dict_update [] data)) \<and>
   (snd (load_data P path fs s) \<noteq> s
      \<longrightarrow> (\<exists>text data. open_read fs path = Inr text \<and> json_loads P text = Inr (PDict data)))"
  by (cases v) (auto simp: load_data_def except_load_def split: sum.splits pyval.splits)

theorem load_data_failure_unchanged_witness:
  "snd (load_data nan_runtime ''inventory.json'' no_files [(''apple'', PInt 7)])
     = [(''apple'', PInt 7)] \<and>
   snd (load_data nan_runtime ''inventory.json'' (no_files(''inventory.json'' := Directory))
          [(''apple'', PInt 7)])
     = [(''apple'', PInt 7)] \<and>
   snd (load_data nan_runtime ''inventory.json'' (no_files(''inventory.json'' := Regular True None))
          [(''apple'', PInt 7)])
     = [(''apple'', PInt 7)] \<and>
   load_data nan_runtime ''inventory.json''
       (no_files(''inventory.json'' := Regular True (Some (PList [PInt 1])))) [(''apple'', PInt 7)]
     = (Returned, [(''apple'', PInt 7)]) \<and>
   load_data nan_runtime ''inventory.json''
       (no_files(''inventory.json'' := Regular True (Some (PDict [(''pear'', PInt 2)]))))
       [(''apple'', PInt 7)]
     = (Returned, [(''pear'', PInt 2)])"
proof -
  let ?s = "[(''apple'', PInt 7 :: unit pyval)]"
  let ?p = "''inventory.json''"
  have a: "open_read no_files ?p = Inl FileNotFoundError"
    by (simp add: open_read_def no_files_def)
  have b: "open_read (no_files(?p := Directory)) ?p = Inl IsADirectoryError"
    by (simp add: open_read_def)
  have c: "open_read (no_files(?p := Regular True None)) ?p = Inr None
      \<and> json_loads nan_runtime None = Inl JSONDecodeError"
    by (simp add: open_read_def nan_runtime_def)
  have d: "open_read (no_files(?p := Regular True (Some (PList [PInt 1])))) ?p
        = Inr (Some (PList [PInt 1]))
      \<and> json_loads nan_runtime (Some (PList [PInt 1])) = Inr (PList [PInt 1])
      \<and> (\<forall>data. PList [PInt 1] \<noteq> (PDict data :: unit pyval))"
    by (simp add: open_read_def nan_runtime_def)
  have e: "open_read (no_files(?p := Regular True (Some (PDict [(''pear'', PInt 2)])))) ?p
        = Inr (Some (PDict [(''pear'', PInt 2)]))
      \<and> json_loads nan_runtime (Some (PDict [(''pear'', PInt 2)])) = Inr (PDict [(''pear'', PInt 2)])"
    by (simp add: open_read_def nan_runtime_def)
  show ?thesis
    using a b c d e
      load_data_failure_unchanged [of no_files ?p FileNotFoundError nan_runtime ?s]
      load_data_failure_unchanged [of "no_files(?p := Directory)" ?p IsADirectoryError nan_runtime ?s]
      load_data_failure_unchanged [of "no_files(?p := Regular True None)" ?p JSONDecodeError
        nan_runtime ?s None]
      load_data_failure_unchanged [of "no_files(?p := Regular True (Some (PList [PInt 1])))" ?p _
        nan_runtime ?s "Some (PList [PInt 1])" "PList [PInt 1]"]
      load_data_failure_unchanged [of "no_files(?p := Regular True (Some (PDict [(''pear'', PInt 2)])))" ?p _
        nan_runtime ?s "Some (PDict [(''pear'', PInt 2)])" _ "[(''pear'', PInt 2)]"]
    by (simp add: dict_update_def)
qed

text \<open>
  Claim C10. When the file parses to a JSON object, \<^verbatim>\<open>load_data\<close> makes the dictionary
  exactly that object's pairs, in order, whatever the values and keys are (the keys of an
  object being distinct). \<^verbatim>\<open>get_qty\<close> then returns each stored value as it is,
  \<^verbatim>\<open>print_data\<close> reports the pairs, and \<^verbatim>\<open>check_low_items\<close> compares every stored value
  with the threshold: it returns the low items when all values are numbers (zero and
  negative ones included) and raises \<^verbatim>\<open>TypeError\<close> as soon as one is not.
\<close>

theorem load_data_installs_verbatim:
  assumes "open_read fs path = Inr text" and "json_loads P text = Inr (PDict data)"
    and "distinct (map fst data)"
  shows "load_data P path fs s = (Returned, data)
       \<and> (\<forall>p \<in> set data. get_qty (PStr (fst p)) data = (Inr (snd p), data))
       \<and> fst (print_data data) = data
       \<and> (list_all (\<lambda>p. isinstance_int_float (snd p)) data \<longrightarrow>
            check_low_items P t data
              = (Inr (map fst (filter (\<lambda>p. py_lt P (snd p) t = Inr True) data)), data))
       \<and> ((\<exists>p \<in> set data. \<not> isinstance_int_float (snd p)) \<longrightarrow>
            check_low_items P t data = (Inl TypeError, data))"
proof -
  from assms(3) have "dict_update [] data = data"
    using dict_update_distinct [of "[]" data] by simp
  with assms(1,2) have 1: "load_data P path fs s = (Returned, data)"
    by (simp add: load_data_def)
  have 2: "\<forall>p \<in> set data. get_qty (PStr (fst p)) data = (Inr (snd p), data)"
  proof
    fix p assume "p \<in> set data"
    then have "(fst p, snd p) \<in> set data" by simp
    with assms(3) have "map_of data (fst p) = Some (snd p)" by (rule map_of_is_SomeI)
    then show "get_qty (PStr (fst p)) data = (Inr (snd p), data)"
      by (simp add: get_qty_def dict_get_def)
  qed
  have 3: "(\<exists>p \<in> set data. \<not> isinstance_int_float (snd p)) \<longrightarrow>
            check_low_items P t data = (Inl TypeError, data)"
    using low_items_non_number [of _ _ data P t]
    by (auto simp: check_low_items_def)
  from 1 2 3 show ?thesis
    by (simp add: print_data_def check_low_items_def low_items_numbers)
qed

theorem load_data_installs_verbatim_witness:
  "load_data nan_runtime ''inventory.json''
     (no_files(''inventory.json'' :=
        Regular True (Some (PDict [('''', PStr ''x''), (''a'', PInt 0), (''b'', PInt (- 3))]))))
     [(''apple'', PInt 7)]
     = (Returned, [('''', PStr ''x''), (''a'', PInt 0), (''b'', PInt (- 3))]) \<and>
   get_qty (PStr '''') [('''', PStr ''x''), (''a'', PInt 0), (''b'', PInt (- 3 :: int)) :: string \<times> unit pyval]
     = (Inr (PStr ''x''), [('''', PStr ''x''), (''a'', PInt 0), (''b'', PInt (- 3))]) \<and>
   get_qty (PStr ''b'') [('''', PStr ''x''), (''a'', PInt 0), (''b'', PInt (- 3 :: int)) :: string \<times> unit pyval]
     = (Inr (PInt (- 3)), [('''', PStr ''x''), (''a'', PInt 0), (''b'', PInt (- 3))]) \<and>
   check_low_items nan_runtime (NInt 5) [('''', PStr ''x''), (''a'', PInt 0), (''b'', PInt (- 3))]
     = (Inl TypeError, [('''', PStr ''x''), (''a'', PInt 0), (''b'', PInt (- 3))])"
proof -
  let ?d = "[('''', PStr ''x''), (''a'', PInt 0), (''b'', PInt (- 3 :: int)) :: string \<times> unit pyval]"
  let ?p = "''inventory.json''"
  have a: "open_read (no_files(?p := Regular True (Some (PDict ?d)))) ?p = Inr (Some (PDict ?d))"
    by (simp add: open_read_def)
  have b: "json_loads nan_runtime (Some (PDict ?d)) = Inr (PDict ?d)"
    by (simp add: nan_runtime_def)
  have c: "distinct (map fst ?d)" by simp
  show ?thesis
    using load_data_installs_verbatim [OF a b c, of "[(''apple'', PInt 7)]" "NInt 5"]
    by simp
qed

section \<open>Facts about the JSON codec\<close>

subsection \<open>Integers\<close>
























subsection \<open>Strings\<close>



lemma char_of_hex_split: "char_of (16 * ((of_char c :: nat) div 16) + of_char c mod 16) = c"
  by simp



subsection \<open>Numbers followed by more text\<close>
















subsection \<open>A dictionary of numbers\<close>

lemma then_write_None [simp]: "then_write (a, None) b = (a @ fst b, snd b)"
  by (simp add: then_write_def)

lemma then_write_Some [simp]: "then_write (a, Some e) b = (a, Some e)"
  by (simp add: then_write_def)












subsection \<open>A dictionary with an integer beyond the digit limit\<close>







section \<open>save\_data followed by load\_data\<close>






section \<open>Quantities at or below zero\<close>

lemma no_nonpositive_dict_set:
  "no_nonpositive P s \<Longrightarrow> \<not> nonpositive P v \<Longrightarrow> no_nonpositive P (dict_set s k v)"
  by (induction s) (auto simp: no_nonpositive_def)

lemma no_nonpositive_dict_del: "no_nonpositive P s \<Longrightarrow> no_nonpositive P (dict_del s k)"
  by (simp add: no_nonpositive_def dict_del_def list_all_iff)

lemma no_nonpositive_dict_update:
  "no_nonpositive P s \<Longrightarrow> no_nonpositive P kvs \<Longrightarrow> no_nonpositive P (dict_update s kvs)"
  unfolding dict_update_def
proof (induction kvs arbitrary: s)
  case Nil
  then show ?case by simp
next
  case (Cons p kvs)
  from Cons.prems(2) have "\<not> nonpositive P (snd p)" and "no_nonpositive P kvs"
    by (simp_all add: no_nonpositive_def)
  with Cons.prems(1) Cons.IH show ?case by (simp add: no_nonpositive_dict_set)
qed

lemma dict_set_member: "(k, v) \<in> set (dict_set s k v)"
  by (induction s) auto

lemma py_le_number: "as_number r \<noteq> None \<Longrightarrow> \<exists>b. py_le P r n = Inr b"
  by (auto simp: py_le_def)

lemma remove_item_keeps_floor:
  assumes "no_nonpositive P s"
  shows "no_nonpositive P (snd (remove_item P item qty s))"
proof (cases "hash_key item")
  case (Inl e)
  with assms show ?thesis by (simp add: remove_item_def)
next
  case (Inr key)
  show ?thesis
  proof (cases key)
    case None
    with Inr assms show ?thesis by (simp add: remove_item_def)
  next
    case (Some k)
    show ?thesis
    proof (cases "map_of s k")
      case None
      with Inr Some assms show ?thesis by (simp add: remove_item_def)
    next
      case present: (Some v)
      show ?thesis
      proof (cases "py_sub P v qty")
        case failed: (Inl e)
        with Inr Some present assms show ?thesis
          by (simp add: remove_item_def except_remove_def)
      next
        case result: (Inr r)
        then obtain b where b: "py_le P r (NInt 0) = Inr b"
          using py_sub_result py_le_number by blast
        with Inr Some present result assms show ?thesis
          by (cases b)
            (simp_all add: remove_item_def nonpositive_def no_nonpositive_dict_set
              no_nonpositive_dict_del dict_del_dict_set)
      qed
    qed
  qed
qed

lemma add_item_total:
  "add_item P item qty s =
     (case add_total P item qty s of
        Some v \<Rightarrow> (Returned, dict_set s (case item of PStr k \<Rightarrow> k | _ \<Rightarrow> []) v)
      | None \<Rightarrow> (fst (add_item P item qty s), s))"
  by (cases item) (auto simp: add_item_def add_total_def split: sum.splits)

lemma add_item_keeps_floor:
  assumes "no_nonpositive P s" and "floor_safe P (Add item qty) (s, fs)"
  shows "no_nonpositive P (snd (add_item P item qty s))"
  using assms
  by (subst add_item_total) (auto simp: no_nonpositive_dict_set split: option.splits)

lemma load_data_object:
  "load_data P path fs s =
     (case loaded_object P path fs of
        Some data \<Rightarrow> (Returned, data)
      | None \<Rightarrow> (fst (load_data P path fs s), s))"
  by (auto simp: load_data_def loaded_object_def except_load_def split: sum.splits pyval.splits)

lemma load_data_keeps_floor:
  assumes "no_nonpositive P s" and "floor_safe P (Load path) (s, fs)"
  shows "no_nonpositive P (snd (load_data P path fs s))"
  using assms
  by (subst load_data_object) (auto split: option.splits)

lemma step_keeps_floor:
  "no_nonpositive P (fst st) \<Longrightarrow> floor_safe P op st \<Longrightarrow> no_nonpositive P (fst (step P op st))"
  by (cases st; cases op)
    (simp_all add: add_item_keeps_floor remove_item_keeps_floor load_data_keeps_floor
      del: floor_safe.simps)

lemma run_keeps_floor:
  "no_nonpositive P (fst st) \<Longrightarrow> floor_safe_run P ops st \<Longrightarrow> no_nonpositive P (fst (run P ops st))"
  unfolding run_def
  by (induction ops arbitrary: st) (simp_all add: step_keeps_floor)

lemma add_item_breaks_floor:
  assumes "add_total P item qty s = Some t" and "nonpositive P t"
  shows "\<not> no_nonpositive P (snd (add_item P item qty s))"
proof -
  from assms(1) obtain k where "item = PStr k"
    by (cases item) (simp_all add: add_total_def)
  with assms(1) have "add_item P item qty s = (Returned, dict_set s k t)"
    by (subst add_item_total) simp
  moreover have "\<not> no_nonpositive P (dict_set s k t)"
    using dict_set_member [of k t s] assms(2)
    by (force simp: no_nonpositive_def list_all_iff)
  ultimately show ?thesis by simp
qed

lemma step_breaks_floor:
  "\<not> floor_safe P op st \<Longrightarrow> \<not> no_nonpositive P (fst (step P op st))"
proof (cases st)
  case (Pair s fs)
  assume unsafe: "\<not> floor_safe P op st"
  show ?thesis
  proof (cases op)
    case (Add item qty)
    with unsafe Pair show ?thesis
      by (auto simp: add_item_breaks_floor split: option.splits)
  next
    case (Load path)
    with unsafe Pair show ?thesis
      by (subst Load, subst Pair, simp only: step.simps, subst load_data_object)
        (auto split: option.splits)
  qed (use unsafe Pair in simp_all)
qed

lemma floor_kept_start: "floor_kept P ops st \<Longrightarrow> no_nonpositive P (fst st)"
  by (cases ops) simp_all

lemma floor_safe_run_kept:
  "no_nonpositive P (fst st) \<Longrightarrow> floor_safe_run P ops st = floor_kept P ops st"
proof (induction ops arbitrary: st)
  case Nil
  then show ?case by simp
next
  case (Cons op ops)
  show ?case
  proof (cases "floor_safe P op st")
    case True
    with Cons.prems have "no_nonpositive P (fst (step P op st))"
      by (rule step_keeps_floor)
    from Cons.IH [OF this] True Cons.prems show ?thesis by simp
  next
    case False
    then have "\<not> floor_kept P ops (step P op st)"
      using step_breaks_floor floor_kept_start by blast
    with False show ?thesis by simp
  qed
qed

text \<open>
  Claim C1, as stated, fails: \<^verbatim>\<open>add_item("banana", -2)\<close>, a call of the module's own
  \<^verbatim>\<open>main\<close>, run on the empty dictionary stores the quantity \<^verbatim>\<open>-2\<close>.
\<close>

theorem negative_quantity_reachable:
  "\<not> no_nonpositive nan_runtime
       (fst (run nan_runtime [Add (PStr ''banana'') (PInt (- 2))] ([], no_files)))"
  by (simp add: run_def add_item_def dict_get_def py_add_def no_nonpositive_def nonpositive_def
      py_le_def)

text \<open>
  Claim C1, amended. Only \<^verbatim>\<open>remove_item\<close> has a floor.
  \<^item> Take any calls of \<^verbatim>\<open>add_item\<close>, \<^verbatim>\<open>remove_item\<close>, \<^verbatim>\<open>load_data\<close> and \<^verbatim>\<open>save_data\<close>, with
    any arguments, made one after the other from the empty dictionary. No quantity at or
    below zero is in the dictionary after any of them exactly when no \<^verbatim>\<open>add_item\<close> among
    them computes a total at or below zero and no \<^verbatim>\<open>load_data\<close> among them reads an
    object with such a quantity; and then there is none in the dictionary they end in.
  \<^item> \<^verbatim>\<open>remove_item\<close>, with any arguments, never brings such a quantity in, and whenever
    its subtraction yields a result the item is afterwards absent or holds a quantity that
    is not at or below zero.
  \<^item> An \<^verbatim>\<open>add_item\<close> whose total is at or below zero stores that total, and a
    \<^verbatim>\<open>load_data\<close> that reads an object with such a quantity installs it: neither removes
    the entry.
\<close>

theorem only_remove_item_has_a_floor:
  "(floor_kept P ops ([], fs) \<longleftrightarrow> floor_safe_run P ops ([], fs)) \<and>
   (floor_safe_run P ops ([], fs) \<longrightarrow> no_nonpositive P (fst (run P ops ([], fs)))) \<and>
   (no_nonpositive P s \<longrightarrow> no_nonpositive P (snd (remove_item P item qty s))) \<and>
   (map_of s k = Some v \<and> py_sub P v qty = Inr r \<longrightarrow>
      (case map_of (snd (remove_item P (PStr k) qty s)) k of
         None \<Rightarrow> True
       | Some w \<Rightarrow> \<not> nonpositive P w)) \<and>
   (add_total P (PStr k) qty s = Some t \<and> nonpositive P t \<longrightarrow>
      add_item P (PStr k) qty s = (Returned, dict_set s k t) \<and>
      \<not> no_nonpositive P (snd (add_item P (PStr k) qty s))) \<and>
   (loaded_object P path fs = Some data \<and> \<not> no_nonpositive P data \<longrightarrow>
      load_data P path fs s = (Returned, data) \<and>
      \<not> no_nonpositive P (snd (load_data P path fs s)))"
proof -
  have start: "no_nonpositive P (fst ([] :: 'a stock, fs))"
    by (simp add: no_nonpositive_def)
  have 0: "floor_kept P ops ([], fs) \<longleftrightarrow> floor_safe_run P ops ([], fs)"
    using floor_safe_run_kept [OF start, of ops] by simp
  have 1: "floor_safe_run P ops ([], fs) \<longrightarrow> no_nonpositive P (fst (run P ops ([], fs)))"
    using run_keeps_floor [OF start, of ops] by simp
  have 2: "no_nonpositive P s \<longrightarrow> no_nonpositive P (snd (remove_item P item qty s))"
    by (simp add: remove_item_keeps_floor)
  have 3: "(case map_of (snd (remove_item P (PStr k) qty s)) k of
         None \<Rightarrow> True
       | Some w \<Rightarrow> \<not> nonpositive P w)"
    if "map_of s k = Some v" and "py_sub P v qty = Inr r"
  proof -
    from that(2) obtain b where b: "py_le P r (NInt 0) = Inr b"
      using py_sub_result py_le_number by blast
    with that show ?thesis
      by (cases b) (simp_all add: remove_item_def map_of_dict_del map_of_dict_set nonpositive_def)
  qed
  have 4: "add_item P (PStr k) qty s = (Returned, dict_set s k t) \<and>
      \<not> no_nonpositive P (snd (add_item P (PStr k) qty s))"
    if "add_total P (PStr k) qty s = Some t" and "nonpositive P t"
  proof -
    from that(1) have "add_item P (PStr k) qty s = (Returned, dict_set s k t)"
      by (subst add_item_total) simp
    with add_item_breaks_floor [OF that] show ?thesis by simp
  qed
  have 5: "load_data P path fs s = (Returned, data) \<and>
      \<not> no_nonpositive P (snd (load_data P path fs s))"
    if "loaded_object P path fs = Some data" and "\<not> no_nonpositive P data"
  proof -
    from that(1) have "load_data P path fs s = (Returned, data)"
      by (subst load_data_object) simp
    with that(2) show ?thesis by simp
  qed
  from 0 1 2 3 4 5 show ?thesis by blast
qed

theorem only_remove_item_has_a_floor_witness:
  "floor_safe_run nan_runtime demo_calls ([], no_files) \<and>
   floor_kept nan_runtime demo_calls ([], no_files) \<and>
   fst (run nan_runtime demo_calls ([], no_files)) = [(''apple'', PInt 5), (''pear'', PInt 1)] \<and>
   no_nonpositive nan_runtime (fst (run nan_runtime demo_calls ([], no_files))) \<and>
   no_nonpositive nan_runtime [(''apple'', PInt 5), (''pear'', PInt 1)] \<and>
   no_nonpositive nan_runtime
     (snd (remove_item nan_runtime (PStr ''pear'') (PFloat ()) [(''apple'', PInt 5), (''pear'', PInt 1)])) \<and>
   map_of [(''apple'', PInt 5 :: unit pyval), (''pear'', PInt 1)] ''apple'' = Some (PInt 5) \<and>
   py_sub nan_runtime (PInt 5) (PInt 5) = Inr (PInt 0) \<and>
   map_of (snd (remove_item nan_runtime (PStr ''apple'') (PInt 5)
       [(''apple'', PInt 5), (''pear'', PInt 1)])) ''apple'' = None \<and>
   add_total nan_runtime (PStr ''apple'') (PInt (- 5)) [(''apple'', PInt 5), (''pear'', PInt 1)]
     = Some (PInt 0) \<and>
   nonpositive nan_runtime (PInt 0) \<and>
   add_item nan_runtime (PStr ''apple'') (PInt (- 5)) [(''apple'', PInt 5), (''pear'', PInt 1)]
     = (Returned, [(''apple'', PInt 0), (''pear'', PInt 1)]) \<and>
   \<not> no_nonpositive nan_runtime [(''apple'', PInt 0), (''pear'', PInt 1)] \<and>
   loaded_object nan_runtime ''stock.json''
       (no_files(''stock.json'' := Regular True (Some (PDict [(''a'', PInt (- 3))]))))
     = Some [(''a'', PInt (- 3))] \<and>
   load_data nan_runtime ''stock.json''
       (no_files(''stock.json'' := Regular True (Some (PDict [(''a'', PInt (- 3))]))))
       [(''apple'', PInt 5), (''pear'', PInt 1)]
     = (Returned, [(''a'', PInt (- 3))])"
proof -
  let ?s = "[(''apple'', PInt 5), (''pear'', PInt 1)] :: unit stock"
  let ?fs = "no_files(''stock.json'' := Regular True (Some (PDict [(''a'', PInt (- 3))])))"
  have a: "floor_safe_run nan_runtime demo_calls ([], no_files)"
    by code_simp
  have b: "fst (run nan_runtime demo_calls ([], no_files)) = ?s"
    by code_simp
  have c: "no_nonpositive nan_runtime ?s"
    by (simp add: no_nonpositive_def nonpositive_def py_le_def)
  have d: "map_of ?s ''apple'' = Some (PInt 5)" by simp
  have e: "py_sub nan_runtime (PInt 5) (PInt 5) = Inr (PInt 0)" by (simp add: py_sub_def)
  have f: "add_total nan_runtime (PStr ''apple'') (PInt (- 5)) ?s = Some (PInt 0)"
    by (simp add: add_total_def py_add_def dict_get_def)
  have g: "nonpositive nan_runtime (PInt 0)" by (simp add: nonpositive_def py_le_def)
  have h: "loaded_object nan_runtime ''stock.json'' ?fs = Some [(''a'', PInt (- 3))]"
    by (simp add: loaded_object_def open_read_def nan_runtime_def dict_update_def)
  have j: "\<not> no_nonpositive nan_runtime [(''a'', PInt (- 3))]"
    by (simp add: no_nonpositive_def nonpositive_def py_le_def)
  have k: "map_of (snd (remove_item nan_runtime (PStr ''apple'') (PInt 5) ?s)) ''apple'' = None"
    by (simp add: remove_item_def py_sub_def py_le_def dict_del_def)
  have l: "\<not> no_nonpositive nan_runtime [(''apple'', PInt 0), (''pear'', PInt 1)]"
    by (simp add: no_nonpositive_def nonpositive_def py_le_def)
  show ?thesis
    using a b c d e f g h j k l
      only_remove_item_has_a_floor [of nan_runtime demo_calls no_files ?s "PStr ''pear''" "PFloat ()"
        "''apple''" "PInt 5" "PInt 0" "PInt 0" "''stock.json''" "[(''a'', PInt (- 3))]"]
      only_remove_item_has_a_floor [of nan_runtime "[]" ?fs ?s "PStr ''apple''" "PInt 5"
        "''apple''" "PInt 5" "PInt 0" "PInt 0" "''stock.json''" "[(''a'', PInt (- 3))]"]
      only_remove_item_has_a_floor [of nan_runtime "[]" ?fs ?s "PStr ''apple''" "PInt (- 5)"
        "''apple''" "PInt 5" "PInt 0" "PInt 0" "''stock.json''" "[(''a'', PInt (- 3))]"]
    by (simp add: dict_del_def)
qed

end
